theory Spec2Isabelle
  imports Main "HOL-Library.Word"
begin

section \<open>The Zorvixe backend: an Express application over a PostgreSQL store\<close>

text \<open>
  The source is \<^verbatim>\<open>src/backend/app.js\<close>. The file holds two revisions of the application,
  one after the other: revision 1 (lines 1 to 485) has the contact form, the payment
  registrations and the legacy payment link; revision 2 (lines 485 to 1101) adds clients
  and per-client expiring links. \<^verbatim>\<open>src/unnamed/part_000\<close> is a third, shorter copy with the
  contact form only; its handler is the same text as in the two revisions.

  Every route handler is modelled as a function from the request's inputs and the database
  state to the HTTP response and the new database state. What a handler reads from its
  surroundings (the clocks, the random sources) is the record \<open>env\<close>. A query that
  PostgreSQL rejects is a value \<open>Inl error\<close>, and the handler's \<^verbatim>\<open>catch\<close> turns it into
  the 500 response. Failures of the connection itself are not modelled: the store answers
  every statement.
\<close>

subsection \<open>JavaScript strings\<close>

text \<open>
  A string is a list of characters with codes below 256. \<^verbatim>\<open>\s\<close> in a regular expression and
  \<^verbatim>\<open>String.prototype.trim\<close> use the same set of white space, which in this range is
  TAB, LF, VT, FF, CR, space and the no-break space.
\<close>

definition is_space :: "char \<Rightarrow> bool" where
  "is_space c = (of_char c \<in> {9, 10, 11, 12, 13, 32, 160 :: nat})"

definition trim :: "string \<Rightarrow> string" where
  "trim s = rev (dropWhile is_space (rev (dropWhile is_space s)))"

text \<open>\<^verbatim>\<open>s.substr(start, length)\<close> for a start and a length that are not negative.\<close>

definition substr :: "nat \<Rightarrow> nat \<Rightarrow> string \<Rightarrow> string" where
  "substr start len s = take len (drop start s)"

text \<open>
  \<^verbatim>\<open>toUpperCase\<close> on the letters a to z; the handler applies it to base-36 digits only.
\<close>

definition upper_of :: "char \<Rightarrow> char" where
  "upper_of c =
     (case map_of (zip ''abcdefghijklmnopqrstuvwxyz'' ''ABCDEFGHIJKLMNOPQRSTUVWXYZ'') c of
        Some u \<Rightarrow> u
      | None \<Rightarrow> c)"

definition toUpperCase :: "string \<Rightarrow> string" where
  "toUpperCase s = map upper_of s"

definition lower_of :: "char \<Rightarrow> char" where
  "lower_of c =
     (case map_of (zip ''ABCDEFGHIJKLMNOPQRSTUVWXYZ'' ''abcdefghijklmnopqrstuvwxyz'') c of
        Some l \<Rightarrow> l
      | None \<Rightarrow> c)"

definition is_digit :: "char \<Rightarrow> bool" where
  "is_digit c = (c \<in> set ''0123456789'')"

text \<open>The decimal rendering of a number, as a template literal or node-postgres writes an integer.\<close>

fun decimal :: "nat \<Rightarrow> string" where
  "decimal n =
     (if n < 10 then [''0123456789'' ! n]
      else decimal (n div 10) @ [''0123456789'' ! (n mod 10)])"

definition show_int :: "int \<Rightarrow> string" where
  "show_int i = (if i < 0 then CHR ''-'' # decimal (nat (- i)) else decimal (nat i))"

text \<open>\<^verbatim>\<open>buffer.toString('hex')\<close>: two lower-case hexadecimal digits per byte.\<close>

definition hex_digit :: "nat \<Rightarrow> char" where
  "hex_digit n = ''0123456789abcdef'' ! n"

definition byte_hex :: "8 word \<Rightarrow> string" where
  "byte_hex b = [hex_digit (unat b div 16), hex_digit (unat b mod 16)]"

definition toString_hex :: "8 word list \<Rightarrow> string" where
  "toString_hex bs = concat (map byte_hex bs)"

subsection \<open>Regular expressions\<close>

text \<open>
  The two patterns of the contact form are anchored at both ends, so \<^verbatim>\<open>test\<close> asks whether
  the whole string is in the pattern's language. The matcher takes the derivative of the
  pattern by each character in turn.
\<close>

datatype regex =
    Never
  | Eps
  | Class "char \<Rightarrow> bool"
  | Seq regex regex
  | Alt regex regex
  | Star regex

fun nullable :: "regex \<Rightarrow> bool" where
  "nullable Never = False"
| "nullable Eps = True"
| "nullable (Class p) = False"
| "nullable (Seq r s) = (nullable r \<and> nullable s)"
| "nullable (Alt r s) = (nullable r \<or> nullable s)"
| "nullable (Star r) = True"

fun deriv :: "char \<Rightarrow> regex \<Rightarrow> regex" where
  "deriv c Never = Never"
| "deriv c Eps = Never"
| "deriv c (Class p) = (if p c then Eps else Never)"
| "deriv c (Seq r s) =
     (if nullable r then Alt (Seq (deriv c r) s) (deriv c s) else Seq (deriv c r) s)"
| "deriv c (Alt r s) = Alt (deriv c r) (deriv c s)"
| "deriv c (Star r) = Seq (deriv c r) (Star r)"

definition regex_test :: "regex \<Rightarrow> string \<Rightarrow> bool" where
  "regex_test r s = nullable (foldl (\<lambda>q c. deriv c q) r s)"

definition Plus :: "regex \<Rightarrow> regex" where
  "Plus r = Seq r (Star r)"

fun times :: "nat \<Rightarrow> regex \<Rightarrow> regex" where
  "times 0 r = Eps"
| "times (Suc n) r = Seq r (times n r)"

text \<open>\<^verbatim>\<open>/^[^\s@]+@[^\s@]+\.[^\s@]+$/\<close>\<close>

definition not_space_at :: "char \<Rightarrow> bool" where
  "not_space_at c = (\<not> is_space c \<and> c \<noteq> CHR ''@'')"

definition email_regex :: regex where
  "email_regex =
     Seq (Plus (Class not_space_at))
       (Seq (Class (\<lambda>c. c = CHR ''@''))
         (Seq (Plus (Class not_space_at))
           (Seq (Class (\<lambda>c. c = CHR ''.'')) (Plus (Class not_space_at)))))"

text \<open>\<^verbatim>\<open>/^[6-9]\d{9}$/\<close>\<close>

definition phone_regex :: regex where
  "phone_regex = Seq (Class (\<lambda>c. c \<in> set ''6789'')) (times 9 (Class is_digit))"

subsection \<open>The surroundings of one request\<close>

text \<open>
  Instants are milliseconds since the epoch. The Node process and the database session are
  taken to run in UTC, where a calendar day is 86400000 ms and a \<^verbatim>\<open>TIMESTAMP\<close> column keeps
  the instant it is given; under a zone with daylight saving the day that
  \<^verbatim>\<open>setDate(getDate() + 1)\<close> adds is an hour shorter or longer twice a year, which this model
  leaves out.
\<close>

record env =
  date_now :: int
  sql_now :: int
  full_year :: nat
  math_random_36 :: string
  random_bytes :: "nat \<Rightarrow> 8 word"

text \<open>
  \<open>date_now\<close> is \<^verbatim>\<open>new Date()\<close> and \<^verbatim>\<open>Date.now()\<close> in the process, \<open>sql_now\<close> is \<^verbatim>\<open>NOW()\<close> and
  \<^verbatim>\<open>CURRENT_TIMESTAMP\<close> in the database, \<open>full_year\<close> is \<^verbatim>\<open>new Date().getFullYear()\<close>,
  \<open>math_random_36\<close> is the string \<^verbatim>\<open>Math.random().toString(36)\<close> and \<open>random_bytes\<close> are the
  bytes \<^verbatim>\<open>crypto.randomBytes\<close> draws, by position.
\<close>

definition msPerDay :: int where
  "msPerDay = 24 * 60 * 60 * 1000"

definition randomBytes :: "env \<Rightarrow> nat \<Rightarrow> 8 word list" where
  "randomBytes e n = map (random_bytes e) [0..<n]"

subsection \<open>The tables\<close>

text \<open>
  One record per table of \<^verbatim>\<open>initializeDb\<close>, one field per column. A column that may hold
  \<^verbatim>\<open>NULL\<close> is an option. \<^verbatim>\<open>NUMERIC(10, 2)\<close> is kept in hundredths. A table is the list of its
  rows in the order they were inserted.
\<close>

record contact =
  ct_id :: int
  ct_name :: string
  ct_email :: string
  ct_phone :: string
  ct_subject :: string
  ct_message :: string
  ct_created_at :: int

record payment_registration =
  pr_id :: int
  pr_client_name :: string
  pr_project_name :: string
  pr_client_id :: string
  pr_amount :: int
  pr_due_date :: int
  pr_receipt_url :: string
  pr_reference_id :: string
  pr_status :: "string option"
  pr_created_at :: int

record payment_link =
  pl_id :: int
  pl_token :: string
  pl_active :: "bool option"
  pl_created_at :: int

record client =
  c_id :: int
  c_name :: string
  c_email :: string
  c_phone :: string
  c_company :: "string option"
  c_created_at :: int

record client_link =
  cl_id :: int
  cl_client_id :: "int option"
  cl_token :: string
  cl_active :: "bool option"
  cl_created_at :: int
  cl_expires_at :: int

text \<open>
  The database. Each \<^verbatim>\<open>SERIAL\<close> column has its sequence, which holds the last id handed
  out; the model advances it on each insert that succeeds. \<open>payment_links_has_active\<close> says
  whether the table \<^verbatim>\<open>payment_links\<close> has the column \<^verbatim>\<open>active\<close>: revision 1 creates the
  table with it (lines 53 to 60), revision 2 without it (lines 538 to 544), and
  \<^verbatim>\<open>CREATE TABLE IF NOT EXISTS\<close> leaves a table that is already there as it is. Where the
  column is missing, \<open>pl_active\<close> of every row is \<open>None\<close>.
\<close>

record db =
  contacts :: "contact list"
  contacts_id_seq :: int
  payment_registrations :: "payment_registration list"
  payment_registrations_id_seq :: int
  payment_links :: "payment_link list"
  payment_links_id_seq :: int
  payment_links_has_active :: bool
  clients :: "client list"
  clients_id_seq :: int
  client_links :: "client_link list"
  client_links_id_seq :: int

datatype sql_error =
    Undefined_column
  | Unique_violation
  | Foreign_key_violation
  | Not_null_violation
  | String_data_right_truncation
  | Numeric_value_out_of_range
  | Invalid_text_representation

subsection \<open>Responses\<close>

text \<open>
  \<^verbatim>\<open>res.status(n).json(b)\<close> is \<open>Response n b\<close>. \<open>Failure m\<close> is the body
  \<^verbatim>\<open>{ success: false, message: m }\<close> (some handlers add the text of the database error,
  which is left out); the other constructors are the bodies the handlers send on success.
\<close>

record client_view =
  cv_client :: client
  cv_clientName :: string
  cv_clientId :: int
  cv_projectName :: string
  cv_amount :: int
  cv_dueDate :: int

datatype body =
    Failure string
  | Link_status "bool option"
  | Payment_link payment_link
  | Payment_link_updated string payment_link
  | Errors "(string \<times> string) list"
  | Contact_created contact
  | Payment_created string payment_registration
  | Payment payment_registration
  | Payments "payment_registration list"
  | Client_created client
  | Link_issued string string int
  | Client_details client_view

datatype response = Response (status: nat) (json: body)

subsection \<open>Column types\<close>

text \<open>
  Storing into \<^verbatim>\<open>VARCHAR(n)\<close>: a longer string is an error, unless what exceeds \<open>n\<close> is
  spaces only, which PostgreSQL cuts off.
\<close>

definition varchar :: "nat \<Rightarrow> string \<Rightarrow> sql_error + string" where
  "varchar n s =
     (if length s \<le> n then Inr s
      else if list_all (\<lambda>c. c = CHR '' '') (drop n s) then Inr (take n s)
      else Inl String_data_right_truncation)"

text \<open>
  Reading a text parameter as \<^verbatim>\<open>INTEGER\<close>: white space, an optional sign, decimal digits,
  white space; the value within 32 bits. (Recent versions of PostgreSQL also read
  hexadecimal, octal and binary numerals; none reads a word of letters.)
\<close>

definition is_c_space :: "char \<Rightarrow> bool" where
  "is_c_space c = (of_char c \<in> {9, 10, 11, 12, 13, 32 :: nat})"

definition digit_val :: "char \<Rightarrow> int" where
  "digit_val c = (case map_of (zip ''0123456789'' [0, 1, 2, 3, 4, 5, 6, 7, 8, 9]) c of
                    Some d \<Rightarrow> d
                  | None \<Rightarrow> 0)"

definition digits_val :: "string \<Rightarrow> int" where
  "digits_val ds = foldl (\<lambda>a c. 10 * a + digit_val c) 0 ds"

definition int4in :: "string \<Rightarrow> sql_error + int" where
  "int4in s =
     (let t = rev (dropWhile is_c_space (rev (dropWhile is_c_space s)));
          neg = (t \<noteq> [] \<and> hd t = CHR ''-'');
          ds = (if t \<noteq> [] \<and> (hd t = CHR ''-'' \<or> hd t = CHR ''+'') then tl t else t);
          v = (if neg then - digits_val ds else digits_val ds)
      in if ds = [] \<or> \<not> list_all is_digit ds then Inl Invalid_text_representation
         else if v < - (2 ^ 31) \<or> 2 ^ 31 \<le> v then Inl Numeric_value_out_of_range
         else Inr v)"

text \<open>A parameter for a column that is \<^verbatim>\<open>NOT NULL\<close>; sequencing of checks that may fail.\<close>

definition not_null :: "'a option \<Rightarrow> sql_error + 'a" where
  "not_null v = (case v of None \<Rightarrow> Inl Not_null_violation | Some x \<Rightarrow> Inr x)"

definition bind_err :: "sql_error + 'a \<Rightarrow> ('a \<Rightarrow> sql_error + 'b) \<Rightarrow> sql_error + 'b" where
  "bind_err r f = (case r of Inl err \<Rightarrow> Inl err | Inr x \<Rightarrow> f x)"

definition varchar_not_null :: "nat \<Rightarrow> string option \<Rightarrow> sql_error + string" where
  "varchar_not_null n v = bind_err (not_null v) (varchar n)"

definition varchar_null :: "nat \<Rightarrow> string option \<Rightarrow> sql_error + string option" where
  "varchar_null n v =
     (case v of None \<Rightarrow> Inr None | Some s \<Rightarrow> bind_err (varchar n s) (\<lambda>t. Inr (Some t)))"

subsection \<open>The legacy payment link\<close>

definition fixed_token :: string where
  "fixed_token = ''4vXcZpLmKjQ8aTyNfRbEoWg7HdUs29qT''"

definition no_tables :: db where
  "no_tables =
     \<lparr>contacts = [], contacts_id_seq = 0,
      payment_registrations = [], payment_registrations_id_seq = 0,
      payment_links = [], payment_links_id_seq = 0, payment_links_has_active = False,
      clients = [], clients_id_seq = 0,
      client_links = [], client_links_id_seq = 0\<rparr>"

text \<open>
  \<^verbatim>\<open>INSERT INTO payment_links ... ON CONFLICT (token) DO NOTHING\<close>. Revision 1 names the
  column \<^verbatim>\<open>active\<close> in the statement (line 64), which fails on a table without it;
  revision 2 names the token only (line 548), and a column \<^verbatim>\<open>active\<close> that is there takes its
  default \<^verbatim>\<open>TRUE\<close>.
\<close>

definition seed_payment_link :: "bool \<Rightarrow> int \<Rightarrow> db \<Rightarrow> sql_error + db" where
  "seed_payment_link names_active now d =
     (if names_active \<and> \<not> payment_links_has_active d then Inl Undefined_column
      else if fixed_token \<in> set (map pl_token (payment_links d)) then Inr d
      else Inr (d\<lparr>payment_links := payment_links d @
                    [\<lparr>pl_id = payment_links_id_seq d + 1, pl_token = fixed_token,
                      pl_active = (if payment_links_has_active d then Some True else None),
                      pl_created_at = now\<rparr>],
                  payment_links_id_seq := payment_links_id_seq d + 1\<rparr>))"

text \<open>
  \<^verbatim>\<open>initializeDb\<close> of each revision, on the database it finds: \<open>None\<close> is a database with no
  table yet. An error is caught and logged (lines 71 to 73 and 576 to 578), and the
  database stays as it was.
\<close>

definition initializeDb_rev1 :: "int \<Rightarrow> db option \<Rightarrow> db" where
  "initializeDb_rev1 now found =
     (let d = (case found of None \<Rightarrow> no_tables\<lparr>payment_links_has_active := True\<rparr> | Some d0 \<Rightarrow> d0)
      in case seed_payment_link True now d of Inl err \<Rightarrow> d | Inr d' \<Rightarrow> d')"

definition initializeDb_rev2 :: "int \<Rightarrow> db option \<Rightarrow> db" where
  "initializeDb_rev2 now found =
     (let d = (case found of None \<Rightarrow> no_tables\<lparr>payment_links_has_active := False\<rparr> | Some d0 \<Rightarrow> d0)
      in case seed_payment_link False now d of Inl err \<Rightarrow> d | Inr d' \<Rightarrow> d')"

text \<open>\<^verbatim>\<open>SELECT * FROM payment_links WHERE token = $1\<close>\<close>

definition select_payment_links :: "string \<Rightarrow> db \<Rightarrow> payment_link list" where
  "select_payment_links token d = filter (\<lambda>r. pl_token r = token) (payment_links d)"

text \<open>\<^verbatim>\<open>GET /api/payment-link/:token\<close>, revision 1 (lines 84 to 110).\<close>

definition get_payment_link_rev1 :: "string \<Rightarrow> db \<Rightarrow> response \<times> db" where
  "get_payment_link_rev1 token d =
     (case select_payment_links token d of
        [] \<Rightarrow> (Response 404 (Failure ''Payment link not found''), d)
      | r # _ \<Rightarrow> (Response 200 (Link_status (pl_active r)), d))"

text \<open>
  The same route in revision 2 (lines 589 to 616), under its comment
  \<^verbatim>\<open>// Always return active: true\<close>.
\<close>

definition get_payment_link_rev2 :: "string \<Rightarrow> db \<Rightarrow> response \<times> db" where
  "get_payment_link_rev2 token d =
     (case select_payment_links token d of
        [] \<Rightarrow> (Response 404 (Failure ''Payment link not found''), d)
      | r # _ \<Rightarrow> (Response 200 (Link_status (Some True)), d))"

text \<open>
  \<^verbatim>\<open>UPDATE payment_links SET active = $1 WHERE token = $2 RETURNING *\<close>: what it does to
  one row, and the rows it returns with the new state. The statement names the column
  \<^verbatim>\<open>active\<close>, so PostgreSQL rejects it on a table without that column.
\<close>

definition set_active :: "bool option \<Rightarrow> string \<Rightarrow> payment_link \<Rightarrow> payment_link" where
  "set_active active token r = (if pl_token r = token then r\<lparr>pl_active := active\<rparr> else r)"

definition update_payment_links ::
  "bool option \<Rightarrow> string \<Rightarrow> db \<Rightarrow> sql_error + payment_link list \<times> db" where
  "update_payment_links active token d =
     (if \<not> payment_links_has_active d then Inl Undefined_column
      else
        let rows = map (set_active active token) (payment_links d)
        in Inr (filter (\<lambda>r. pl_token r = token) rows, d\<lparr>payment_links := rows\<rparr>))"

text \<open>
  \<^verbatim>\<open>PUT /api/admin/payment-link/:token\<close>, the same text in both revisions (lines 113 to 145
  and 620 to 652). \<open>active\<close> is the field of the request body; \<open>None\<close> is a body without it.
\<close>

definition put_admin_payment_link :: "string \<Rightarrow> bool option \<Rightarrow> db \<Rightarrow> response \<times> db" where
  "put_admin_payment_link token active d =
     (case update_payment_links active token d of
        Inl err \<Rightarrow> (Response 500 (Failure ''Failed to update link status''), d)
      | Inr (rows, d') \<Rightarrow>
          (case rows of
             [] \<Rightarrow> (Response 404 (Failure ''Payment link not found''), d')
           | r # _ \<Rightarrow>
               (Response 200
                  (Payment_link_updated
                     (''Link '' @ (if active = Some True then ''activated'' else ''deactivated'')) r),
                d')))"

text \<open>\<^verbatim>\<open>GET /api/admin/payment-link/:token\<close> (lines 453 to 479 and 925 to 951).\<close>

definition get_admin_payment_link :: "string \<Rightarrow> db \<Rightarrow> response \<times> db" where
  "get_admin_payment_link token d =
     (case select_payment_links token d of
        [] \<Rightarrow> (Response 404 (Failure ''Payment link not found''), d)
      | r # _ \<Rightarrow> (Response 200 (Payment_link r), d))"

subsection \<open>The contact form\<close>

text \<open>
  \<^verbatim>\<open>POST /api/contact/submit\<close> (lines 148 to 184, 655 to 691, and part_000 lines 29 to 65).
  A field of the body is a string or is missing; \<^verbatim>\<open>!name\<close> holds of a missing field and
  of the empty string.
\<close>

record contact_form =
  cf_name :: "string option"
  cf_email :: "string option"
  cf_phone :: "string option"
  cf_subject :: "string option"
  cf_message :: "string option"

definition name_rejected :: "string option \<Rightarrow> bool" where
  "name_rejected name = (case name of None \<Rightarrow> True | Some s \<Rightarrow> s = [] \<or> length (trim s) < 3)"

definition email_rejected :: "string option \<Rightarrow> bool" where
  "email_rejected email =
     (case email of None \<Rightarrow> True | Some s \<Rightarrow> s = [] \<or> \<not> regex_test email_regex s)"

definition phone_rejected :: "string option \<Rightarrow> bool" where
  "phone_rejected phone =
     (case phone of None \<Rightarrow> True | Some s \<Rightarrow> s = [] \<or> \<not> regex_test phone_regex s)"

definition subject_rejected :: "string option \<Rightarrow> bool" where
  "subject_rejected subject = (case subject of None \<Rightarrow> True | Some s \<Rightarrow> s = [])"

definition message_rejected :: "string option \<Rightarrow> bool" where
  "message_rejected message =
     (case message of None \<Rightarrow> True | Some s \<Rightarrow> s = [] \<or> length (trim s) < 10)"

definition contact_errors :: "contact_form \<Rightarrow> (string \<times> string) list" where
  "contact_errors f =
     (if name_rejected (cf_name f) then [(''name'', ''Name must be at least 3 characters'')] else []) @
     (if email_rejected (cf_email f) then [(''email'', ''Valid email is required'')] else []) @
     (if phone_rejected (cf_phone f)
      then [(''phone'', ''Valid 10-digit phone number starting with 6-9 is required'')] else []) @
     (if subject_rejected (cf_subject f) then [(''subject'', ''Please select a service'')] else []) @
     (if message_rejected (cf_message f)
      then [(''message'', ''Message must be at least 10 characters'')] else [])"

text \<open>
  \<^verbatim>\<open>INSERT INTO contacts (name, email, phone, subject, message) VALUES (...) RETURNING *\<close>
  against the column types of lines 25 to 33.
\<close>

definition insert_contact ::
  "int \<Rightarrow> string option \<Rightarrow> string option \<Rightarrow> string option \<Rightarrow> string option \<Rightarrow> string option \<Rightarrow>
   db \<Rightarrow> sql_error + contact \<times> db" where
  "insert_contact now name email phone subject message d =
     bind_err (varchar_not_null 100 name) (\<lambda>n.
     bind_err (varchar_not_null 100 email) (\<lambda>e.
     bind_err (varchar_not_null 20 phone) (\<lambda>p.
     bind_err (varchar_not_null 100 subject) (\<lambda>s.
     bind_err (not_null message) (\<lambda>m.
       let row = \<lparr>ct_id = contacts_id_seq d + 1, ct_name = n, ct_email = e, ct_phone = p,
                  ct_subject = s, ct_message = m, ct_created_at = now\<rparr>
       in Inr (row, d\<lparr>contacts := contacts d @ [row],
                      contacts_id_seq := contacts_id_seq d + 1\<rparr>))))))"

definition post_contact_submit :: "env \<Rightarrow> contact_form \<Rightarrow> db \<Rightarrow> response \<times> db" where
  "post_contact_submit e f d =
     (let errors = contact_errors f
      in if length errors > 0 then (Response 400 (Errors errors), d)
         else
           case insert_contact (sql_now e) (cf_name f) (cf_email f) (cf_phone f) (cf_subject f)
                  (cf_message f) d of
             Inl err \<Rightarrow> (Response 500 (Failure ''Failed to submit form''), d)
           | Inr (row, d') \<Rightarrow> (Response 201 (Contact_created row), d'))"

subsection \<open>Payment registrations\<close>

text \<open>
  \<^verbatim>\<open>POST /api/payment/submit\<close> (lines 212 to 243 and 719 to 750). The reference id is built
  from the year and from the characters 2 to 7 of \<^verbatim>\<open>Math.random().toString(36)\<close>, a string
  such as \<^verbatim>\<open>0.4fzyo82mvyr\<close>: the digit 0, the point, and the base-36 digits of the
  fraction, as many as the number needs (\<^verbatim>\<open>(0.5).toString(36)\<close> is \<^verbatim>\<open>0.i\<close>, and zero is
  \<^verbatim>\<open>0\<close>).
\<close>

definition randomString :: "env \<Rightarrow> string" where
  "randomString e = toUpperCase (substr 2 6 (math_random_36 e))"

definition referenceId :: "env \<Rightarrow> string" where
  "referenceId e = ''PAY-'' @ decimal (full_year e) @ ''-'' @ randomString e"

record payment_form =
  pf_clientName :: "string option"
  pf_projectName :: "string option"
  pf_clientId :: "string option"
  pf_amount :: "int option"
  pf_dueDate :: "int option"
  pf_receiptUrl :: "string option"

text \<open>
  The amount of the body is taken as a number of hundredths and the due date as an instant;
  text that PostgreSQL cannot read as a number or a date is outside the type.
\<close>

definition numeric_10_2 :: "int \<Rightarrow> sql_error + int" where
  "numeric_10_2 a = (if \<bar>a\<bar> < 10 ^ 10 then Inr a else Inl Numeric_value_out_of_range)"

definition insert_payment_registration ::
  "int \<Rightarrow> payment_form \<Rightarrow> string \<Rightarrow> db \<Rightarrow> sql_error + payment_registration \<times> db" where
  "insert_payment_registration now f reference d =
     bind_err (varchar_not_null 100 (pf_clientName f)) (\<lambda>cn.
     bind_err (varchar_not_null 100 (pf_projectName f)) (\<lambda>pn.
     bind_err (varchar_not_null 50 (pf_clientId f)) (\<lambda>ci.
     bind_err (bind_err (not_null (pf_amount f)) numeric_10_2) (\<lambda>am.
     bind_err (not_null (pf_dueDate f)) (\<lambda>dd.
     bind_err (not_null (pf_receiptUrl f)) (\<lambda>ru.
     bind_err (varchar 50 reference) (\<lambda>ri.
       if ri \<in> set (map pr_reference_id (payment_registrations d)) then Inl Unique_violation
       else
         let row = \<lparr>pr_id = payment_registrations_id_seq d + 1, pr_client_name = cn,
                    pr_project_name = pn, pr_client_id = ci, pr_amount = am, pr_due_date = dd,
                    pr_receipt_url = ru, pr_reference_id = ri, pr_status = Some ''pending'',
                    pr_created_at = now\<rparr>
         in Inr (row, d\<lparr>payment_registrations := payment_registrations d @ [row],
                        payment_registrations_id_seq := payment_registrations_id_seq d + 1\<rparr>))))))))"

definition post_payment_submit :: "env \<Rightarrow> payment_form \<Rightarrow> db \<Rightarrow> response \<times> db" where
  "post_payment_submit e f d =
     (case insert_payment_registration (sql_now e) f (referenceId e) d of
        Inl err \<Rightarrow> (Response 500 (Failure ''Failed to submit payment registration''), d)
      | Inr (row, d') \<Rightarrow> (Response 201 (Payment_created (referenceId e) row), d'))"

text \<open>
  \<^verbatim>\<open>SELECT * FROM payment_registrations WHERE id = $1\<close>, the parameter being the text of the
  path segment, which PostgreSQL reads as an \<^verbatim>\<open>INTEGER\<close> to compare it with the column.
\<close>

definition select_payment_registration :: "string \<Rightarrow> db \<Rightarrow> sql_error + payment_registration list" where
  "select_payment_registration id' d =
     bind_err (int4in id') (\<lambda>i. Inr (filter (\<lambda>p. pr_id p = i) (payment_registrations d)))"

text \<open>\<^verbatim>\<open>GET /api/admin/payments/:id\<close> (lines 341 to 368 and 814 to 841).\<close>

definition get_admin_payments_id :: "string \<Rightarrow> db \<Rightarrow> response \<times> db" where
  "get_admin_payments_id id' d =
     (case select_payment_registration id' d of
        Inl err \<Rightarrow> (Response 500 (Failure ''Failed to fetch payment registration''), d)
      | Inr rows \<Rightarrow>
          (case rows of
             [] \<Rightarrow> (Response 404 (Failure ''Payment registration not found''), d)
           | p # _ \<Rightarrow> (Response 200 (Payment p), d)))"

text \<open>
  \<^verbatim>\<open>LIKE\<close>: in the pattern \<^verbatim>\<open>%\<close> stands for any run of characters, \<^verbatim>\<open>_\<close> for any one
  character, and a backslash makes the next character stand for itself. PostgreSQL rejects
  a pattern that ends in a lone backslash; the search pattern below ends in \<^verbatim>\<open>%\<close>.
  \<^verbatim>\<open>ILIKE\<close> compares without regard to case.
\<close>

fun like :: "string \<Rightarrow> string \<Rightarrow> bool" where
  "like [] s = (s = [])"
| "like (p # ps) [] = (p = CHR ''%'' \<and> like ps [])"
| "like (p # ps) (c # cs) =
     (if p = CHR ''%'' then like ps (c # cs) \<or> like (p # ps) cs
      else if p = CHR ''_'' then like ps cs
      else if p = CHR 0x5C then (case ps of [] \<Rightarrow> False | q # qs \<Rightarrow> q = c \<and> like qs cs)
      else p = c \<and> like ps cs)"

definition ilike :: "string \<Rightarrow> string \<Rightarrow> bool" where
  "ilike s pattern = like (map lower_of pattern) (map lower_of s)"

text \<open>
  The search statement of lines 899 to 908: four columns, newest first, at most 20 rows.
  Rows of equal \<^verbatim>\<open>created_at\<close> keep the order of the table.
\<close>

definition select_search :: "string \<Rightarrow> db \<Rightarrow> payment_registration list" where
  "select_search searchTerm d =
     take 20
       (sort_key (\<lambda>p. - pr_created_at p)
          (filter (\<lambda>p. ilike (pr_client_name p) searchTerm \<or> ilike (pr_project_name p) searchTerm \<or>
                       ilike (pr_client_id p) searchTerm \<or> ilike (pr_reference_id p) searchTerm)
             (payment_registrations d)))"

text \<open>
  The handler registered for \<^verbatim>\<open>GET /api/admin/payments/search\<close> (lines 414 to 449 and 887
  to 922); \<open>query\<close> is the query parameter of that name.
\<close>

definition get_admin_payments_search :: "string option \<Rightarrow> db \<Rightarrow> response \<times> db" where
  "get_admin_payments_search query d =
     (case query of
        None \<Rightarrow> (Response 400 (Failure ''Search query must be at least 3 characters''), d)
      | Some q \<Rightarrow>
          if q = [] \<or> length (trim q) < 3
          then (Response 400 (Failure ''Search query must be at least 3 characters''), d)
          else (Response 200 (Payments (select_search (''%'' @ q @ ''%'') d)), d))"

subsection \<open>Clients and client links (revision 2)\<close>

record client_form =
  nf_name :: "string option"
  nf_email :: "string option"
  nf_phone :: "string option"
  nf_company :: "string option"

definition insert_client :: "int \<Rightarrow> client_form \<Rightarrow> db \<Rightarrow> sql_error + client \<times> db" where
  "insert_client now f d =
     bind_err (varchar_not_null 100 (nf_name f)) (\<lambda>n.
     bind_err (varchar_not_null 100 (nf_email f)) (\<lambda>e.
     bind_err (varchar_not_null 20 (nf_phone f)) (\<lambda>p.
     bind_err (varchar_null 100 (nf_company f)) (\<lambda>c.
       let row = \<lparr>c_id = clients_id_seq d + 1, c_name = n, c_email = e, c_phone = p,
                  c_company = c, c_created_at = now\<rparr>
       in Inr (row, d\<lparr>clients := clients d @ [row], clients_id_seq := clients_id_seq d + 1\<rparr>)))))"

text \<open>\<^verbatim>\<open>POST /api/admin/clients\<close> (lines 954 to 973).\<close>

definition post_admin_clients :: "env \<Rightarrow> client_form \<Rightarrow> db \<Rightarrow> response \<times> db" where
  "post_admin_clients e f d =
     (case insert_client (sql_now e) f d of
        Inl err \<Rightarrow> (Response 500 (Failure ''Failed to create client''), d)
      | Inr (row, d') \<Rightarrow> (Response 201 (Client_created row), d'))"

text \<open>
  \<^verbatim>\<open>INSERT INTO client_links (client_id, token, expires_at) VALUES ($1, $2, $3) RETURNING *\<close>
  against the table of lines 564 to 573: \<^verbatim>\<open>client_id\<close> references \<^verbatim>\<open>clients(id)\<close> and may
  be \<^verbatim>\<open>NULL\<close>, \<^verbatim>\<open>token\<close> is unique, \<^verbatim>\<open>active\<close> defaults to \<^verbatim>\<open>TRUE\<close>.
\<close>

definition insert_client_link ::
  "int \<Rightarrow> int option \<Rightarrow> string \<Rightarrow> int \<Rightarrow> db \<Rightarrow> sql_error + client_link \<times> db" where
  "insert_client_link now clientId token expiresAt d =
     bind_err (varchar 100 token) (\<lambda>t.
       if t \<in> set (map cl_token (client_links d)) then Inl Unique_violation
       else if (case clientId of None \<Rightarrow> False | Some i \<Rightarrow> i \<notin> set (map c_id (clients d)))
       then Inl Foreign_key_violation
       else
         let row = \<lparr>cl_id = client_links_id_seq d + 1, cl_client_id = clientId, cl_token = t,
                    cl_active = Some True, cl_created_at = now, cl_expires_at = expiresAt\<rparr>
         in Inr (row, d\<lparr>client_links := client_links d @ [row],
                        client_links_id_seq := client_links_id_seq d + 1\<rparr>))"

text \<open>
  \<^verbatim>\<open>POST /api/admin/client-links\<close> (lines 996 to 1025). \<open>clientId\<close> is the field of the body,
  a number, or \<open>None\<close> when the body has none (node-postgres sends \<^verbatim>\<open>undefined\<close> as
  \<^verbatim>\<open>NULL\<close>).
\<close>

definition post_admin_client_links :: "env \<Rightarrow> int option \<Rightarrow> db \<Rightarrow> response \<times> db" where
  "post_admin_client_links e clientId d =
     (let token = toString_hex (randomBytes e 32);
          expiresAt = date_now e + 1 * msPerDay
      in case insert_client_link (sql_now e) clientId token expiresAt d of
           Inl err \<Rightarrow> (Response 500 (Failure ''Failed to generate link''), d)
         | Inr (row, d') \<Rightarrow>
             (Response 201
                (Link_issued (''https://www.zorvixetechnologies.com/payment/'' @ token) token
                   expiresAt),
              d'))"

text \<open>The row that the handler stores when the insert succeeds, with the 24 hours written out.\<close>

definition link_row :: "env \<Rightarrow> int option \<Rightarrow> db \<Rightarrow> client_link" where
  "link_row e clientId d =
     \<lparr>cl_id = client_links_id_seq d + 1, cl_client_id = clientId,
      cl_token = toString_hex (randomBytes e 32), cl_active = Some True,
      cl_created_at = sql_now e, cl_expires_at = date_now e + 24 * 60 * 60 * 1000\<rparr>"

text \<open>
  The three statements of \<^verbatim>\<open>GET /api/client-details/:token\<close> (lines 1033 to 1039, 1051 to
  1054 and 1066 to 1072). \<^verbatim>\<open>active = true\<close> does not hold of a \<^verbatim>\<open>NULL\<close>, and
  \<^verbatim>\<open>id = $1\<close> holds of no row when the parameter is \<^verbatim>\<open>NULL\<close>. The last statement compares
  the text column \<^verbatim>\<open>payment_registrations.client_id\<close> with the client's id, which
  node-postgres sends as its decimal text.
\<close>

definition select_client_links :: "int \<Rightarrow> string \<Rightarrow> db \<Rightarrow> client_link list" where
  "select_client_links now token d =
     filter (\<lambda>l. cl_token l = token \<and> cl_active l = Some True \<and> cl_expires_at l > now)
       (client_links d)"

definition select_clients :: "int option \<Rightarrow> db \<Rightarrow> client list" where
  "select_clients id' d =
     (case id' of None \<Rightarrow> [] | Some i \<Rightarrow> filter (\<lambda>c. c_id c = i) (clients d))"

definition select_latest_payment :: "int \<Rightarrow> db \<Rightarrow> payment_registration list" where
  "select_latest_payment id' d =
     take 1
       (sort_key (\<lambda>p. - pr_created_at p)
          (filter (\<lambda>p. pr_client_id p = show_int id') (payment_registrations d)))"

definition get_client_details :: "env \<Rightarrow> string \<Rightarrow> db \<Rightarrow> response \<times> db" where
  "get_client_details e token d =
     (case select_client_links (sql_now e) token d of
        [] \<Rightarrow> (Response 404 (Failure ''Link not found or expired''), d)
      | link # _ \<Rightarrow>
          (case select_clients (cl_client_id link) d of
             [] \<Rightarrow> (Response 404 (Failure ''Client not found''), d)
           | client # _ \<Rightarrow>
               (let paymentResult = select_latest_payment (c_id client) d
                in (Response 200
                      (Client_details
                         \<lparr>cv_client = client,
                          cv_clientName = c_name client,
                          cv_clientId = c_id client,
                          cv_projectName =
                            (case paymentResult of
                               [] \<Rightarrow> ''New Project''
                             | p # _ \<Rightarrow>
                                 if pr_project_name p = [] then ''New Project''
                                 else pr_project_name p),
                          cv_amount =
                            (case paymentResult of [] \<Rightarrow> 5000 * 100 | p # _ \<Rightarrow> pr_amount p),
                          cv_dueDate =
                            (case paymentResult of
                               [] \<Rightarrow> date_now e + 7 * 24 * 60 * 60 * 1000
                             | p # _ \<Rightarrow> pr_due_date p)\<rparr>),
                    d))))"

subsection \<open>Routing\<close>

text \<open>
  Express tries the routes in the order they were registered and runs the handler of the
  first whose method and path match; a handler that sends a response and does not call
  \<^verbatim>\<open>next\<close> ends the request. A path is the list of its segments; \<^verbatim>\<open>:name\<close> matches any
  one segment that is not empty. (Express also ignores the case of the fixed segments and
  a slash at the end of the path, which the model does not.)
\<close>

datatype http_method = GET | POST | PUT

datatype segment = Lit string | Param string

datatype handler =
    H_health
  | H_payment_link
  | H_admin_payment_link_put
  | H_contact_submit
  | H_contacts
  | H_payment_submit
  | H_admin_payments
  | H_admin_payments_id
  | H_admin_payments_id_status
  | H_admin_payments_search
  | H_admin_payment_link_get
  | H_admin_clients_post
  | H_admin_clients_get
  | H_admin_client_links
  | H_client_details

datatype revision = Rev1 | Rev2

text \<open>The calls of \<^verbatim>\<open>app.get\<close>, \<^verbatim>\<open>app.post\<close> and \<^verbatim>\<open>app.put\<close>, in the order of the file.\<close>

definition routes_rev1 :: "(http_method \<times> segment list \<times> handler) list" where
  "routes_rev1 =
     [(GET, [Lit ''health''], H_health),
      (GET, [Lit ''api'', Lit ''payment-link'', Param ''token''], H_payment_link),
      (PUT, [Lit ''api'', Lit ''admin'', Lit ''payment-link'', Param ''token''],
         H_admin_payment_link_put),
      (POST, [Lit ''api'', Lit ''contact'', Lit ''submit''], H_contact_submit),
      (GET, [Lit ''api'', Lit ''contacts''], H_contacts),
      (POST, [Lit ''api'', Lit ''payment'', Lit ''submit''], H_payment_submit),
      (POST, [Lit ''api'', Lit ''payment'', Lit ''submit''], H_payment_submit),
      (GET, [Lit ''api'', Lit ''admin'', Lit ''payments''], H_admin_payments),
      (GET, [Lit ''api'', Lit ''admin'', Lit ''payments'', Param ''id''], H_admin_payments_id),
      (PUT, [Lit ''api'', Lit ''admin'', Lit ''payments'', Param ''id'', Lit ''status''],
         H_admin_payments_id_status),
      (GET, [Lit ''api'', Lit ''admin'', Lit ''payments'', Lit ''search''],
         H_admin_payments_search),
      (GET, [Lit ''api'', Lit ''admin'', Lit ''payment-link'', Param ''token''],
         H_admin_payment_link_get)]"

definition routes_rev2 :: "(http_method \<times> segment list \<times> handler) list" where
  "routes_rev2 =
     [(GET, [Lit ''health''], H_health),
      (GET, [Lit ''api'', Lit ''payment-link'', Param ''token''], H_payment_link),
      (PUT, [Lit ''api'', Lit ''admin'', Lit ''payment-link'', Param ''token''],
         H_admin_payment_link_put),
      (POST, [Lit ''api'', Lit ''contact'', Lit ''submit''], H_contact_submit),
      (GET, [Lit ''api'', Lit ''contacts''], H_contacts),
      (POST, [Lit ''api'', Lit ''payment'', Lit ''submit''], H_payment_submit),
      (GET, [Lit ''api'', Lit ''admin'', Lit ''payments''], H_admin_payments),
      (GET, [Lit ''api'', Lit ''admin'', Lit ''payments'', Param ''id''], H_admin_payments_id),
      (PUT, [Lit ''api'', Lit ''admin'', Lit ''payments'', Param ''id'', Lit ''status''],
         H_admin_payments_id_status),
      (GET, [Lit ''api'', Lit ''admin'', Lit ''payments'', Lit ''search''],
         H_admin_payments_search),
      (GET, [Lit ''api'', Lit ''admin'', Lit ''payment-link'', Param ''token''],
         H_admin_payment_link_get),
      (POST, [Lit ''api'', Lit ''admin'', Lit ''clients''], H_admin_clients_post),
      (GET, [Lit ''api'', Lit ''admin'', Lit ''clients''], H_admin_clients_get),
      (POST, [Lit ''api'', Lit ''admin'', Lit ''client-links''], H_admin_client_links),
      (GET, [Lit ''api'', Lit ''client-details'', Param ''token''], H_client_details)]"

definition routes :: "revision \<Rightarrow> (http_method \<times> segment list \<times> handler) list" where
  "routes rv = (case rv of Rev1 \<Rightarrow> routes_rev1 | Rev2 \<Rightarrow> routes_rev2)"

fun match_path :: "segment list \<Rightarrow> string list \<Rightarrow> (string \<times> string) list option" where
  "match_path [] [] = Some []"
| "match_path (Lit s # ps) (x # xs) = (if x = s then match_path ps xs else None)"
| "match_path (Param n # ps) (x # xs) =
     (if x = [] then None
      else case match_path ps xs of None \<Rightarrow> None | Some bound \<Rightarrow> Some ((n, x) # bound))"
| "match_path _ _ = None"

fun resolve ::
  "(http_method \<times> segment list \<times> handler) list \<Rightarrow> http_method \<Rightarrow> string list \<Rightarrow>
   (handler \<times> (string \<times> string) list) option" where
  "resolve [] m path = None"
| "resolve ((m', pattern, h) # rs) m path =
     (if m' = m
      then case match_path pattern path of
             Some bound \<Rightarrow> Some (h, bound)
           | None \<Rightarrow> resolve rs m path
      else resolve rs m path)"

text \<open>\<^verbatim>\<open>req.params.name\<close> and \<^verbatim>\<open>req.query.name\<close>.\<close>

definition param :: "(string \<times> string) list \<Rightarrow> string \<Rightarrow> string" where
  "param bound n = (case map_of bound n of Some v \<Rightarrow> v | None \<Rightarrow> [])"

text \<open>
  What a \<^verbatim>\<open>GET\<close> request gets: the response of the handler that the path resolves to.
  The handlers that only list a table (\<^verbatim>\<open>/health\<close>, \<^verbatim>\<open>/api/contacts\<close>,
  \<^verbatim>\<open>/api/admin/payments\<close>, \<^verbatim>\<open>/api/admin/clients\<close>) are not modelled.
\<close>

datatype outcome = Sent response db | No_route | Not_modelled handler

definition sent :: "response \<times> db \<Rightarrow> outcome" where
  "sent r = Sent (fst r) (snd r)"

definition get_request ::
  "revision \<Rightarrow> env \<Rightarrow> string list \<Rightarrow> (string \<times> string) list \<Rightarrow> db \<Rightarrow> outcome" where
  "get_request rv e path query d =
     (case resolve (routes rv) GET path of
        None \<Rightarrow> No_route
      | Some (h, bound) \<Rightarrow>
          (case h of
             H_payment_link \<Rightarrow>
               (case rv of
                  Rev1 \<Rightarrow> sent (get_payment_link_rev1 (param bound ''token'') d)
                | Rev2 \<Rightarrow> sent (get_payment_link_rev2 (param bound ''token'') d))
           | H_admin_payments_id \<Rightarrow> sent (get_admin_payments_id (param bound ''id'') d)
           | H_admin_payments_search \<Rightarrow>
               sent (get_admin_payments_search (map_of query ''query'') d)
           | H_admin_payment_link_get \<Rightarrow>
               sent (get_admin_payment_link (param bound ''token'') d)
           | H_client_details \<Rightarrow> sent (get_client_details e (param bound ''token'') d)
           | _ \<Rightarrow> Not_modelled h))"

subsection \<open>The constraints of the schema\<close>

text \<open>
  What PostgreSQL keeps true of the two tables of revision 2, whatever the application
  does: \<^verbatim>\<open>clients.id\<close> is a primary key handed out by its sequence, \<^verbatim>\<open>client_links.token\<close>
  is unique, and \<^verbatim>\<open>client_links.client_id\<close> is \<^verbatim>\<open>NULL\<close> or the id of a row of \<^verbatim>\<open>clients\<close>.
\<close>

definition schema_constraints :: "db \<Rightarrow> bool" where
  "schema_constraints d =
     (distinct (map c_id (clients d)) \<and>
      list_all (\<lambda>c. c_id c \<le> clients_id_seq d) (clients d) \<and>
      distinct (map cl_token (client_links d)) \<and>
      list_all (\<lambda>l. case cl_client_id l of
                       None \<Rightarrow> True
                     | Some i \<Rightarrow> i \<in> set (map c_id (clients d))) (client_links d))"

subsection \<open>The states the application reaches\<close>

text \<open>
  From a database without tables, either revision is started; a later start of either
  revision finds the database as the last request left it; and between two starts the
  requests that write are served one at a time. (The handlers of clients and client links
  exist in revision 2 only; before its first start their tables are empty.)
\<close>

inductive reachable :: "db \<Rightarrow> bool" where
  start_rev1: "reachable (initializeDb_rev1 now None)"
| start_rev2: "reachable (initializeDb_rev2 now None)"
| restart_rev1: "reachable d \<Longrightarrow> reachable (initializeDb_rev1 now (Some d))"
| restart_rev2: "reachable d \<Longrightarrow> reachable (initializeDb_rev2 now (Some d))"
| put_link: "reachable d \<Longrightarrow> reachable (snd (put_admin_payment_link token active d))"
| contact: "reachable d \<Longrightarrow> reachable (snd (post_contact_submit e cf d))"
| payment: "reachable d \<Longrightarrow> reachable (snd (post_payment_submit e pf d))"
| new_client: "reachable d \<Longrightarrow> reachable (snd (post_admin_clients e nf d))"
| new_link: "reachable d \<Longrightarrow> reachable (snd (post_admin_client_links e clientId d))"

subsection \<open>Example requests and states\<close>

text \<open>
  The surroundings of a request at instant \<open>t\<close> whose random bytes are all \<open>b\<close>, and the
  token that \<^verbatim>\<open>crypto.randomBytes(32).toString('hex')\<close> then gives.
\<close>

definition example_env :: "int \<Rightarrow> 8 word \<Rightarrow> env" where
  "example_env t b =
     \<lparr>date_now = t, sql_now = t, full_year = 2026, math_random_36 = ''0.4fzyo82mvyr'',
      random_bytes = (\<lambda>i. b)\<rparr>"

definition example_token :: "8 word \<Rightarrow> string" where
  "example_token b = toString_hex (randomBytes (example_env 0 b) 32)"

text \<open>
  Revision 2 on a database it has initialised itself, after one request
  \<^verbatim>\<open>POST /api/admin/client-links\<close> at instant 1000 whose body has no \<^verbatim>\<open>clientId\<close>.
\<close>

definition db_orphan_link :: db where
  "db_orphan_link =
     snd (post_admin_client_links (example_env 1000 0xab) None (initializeDb_rev2 0 None))"

text \<open>
  The same database after a client was created at instant 500 and a link issued for it
  at instant 1000.
\<close>

definition example_client :: client_form where
  "example_client =
     \<lparr>nf_name = Some ''Asha Rao'', nf_email = Some ''asha@example.com'',
      nf_phone = Some ''9876543210'', nf_company = None\<rparr>"

definition db_one_client :: db where
  "db_one_client = snd (post_admin_clients (example_env 500 0) example_client (initializeDb_rev2 0 None))"

definition db_one_link :: db where
  "db_one_link = snd (post_admin_client_links (example_env 1000 0xab) (Some 1) db_one_client)"



definition db_two_links :: db where
  "db_two_links = snd (post_admin_client_links (example_env 1500 0xcd) (Some 1) db_one_link)"

text \<open>
  A database that revision 1 initialised and in which the legacy link was switched off
  through \<^verbatim>\<open>PUT /api/admin/payment-link/:token\<close>, as revision 2 finds it at its start.
\<close>

definition db_legacy_off :: db where
  "db_legacy_off =
     initializeDb_rev2 100
       (Some (snd (put_admin_payment_link fixed_token (Some False) (initializeDb_rev1 0 None))))"

text \<open>A payment registration as the form of the site submits it.\<close>

definition example_payment :: payment_form where
  "example_payment =
     \<lparr>pf_clientName = Some ''Asha Rao'', pf_projectName = Some ''Website'',
      pf_clientId = Some ''1'', pf_amount = Some 1250000, pf_dueDate = Some 700000,
      pf_receiptUrl = Some ''https://example.com/receipt.pdf''\<rparr>"

subsection \<open>The validity of a contact form\<close>












subsection \<open>The format of a reference id\<close>

text \<open>
  The digits of base 36 as \<^verbatim>\<open>toString(36)\<close> writes them, and the characters the format
  \<^verbatim>\<open>PAY-YYYY-RANDOM6\<close> of the comment of line 722 allows in its last part.
\<close>

definition is_base36 :: "char \<Rightarrow> bool" where
  "is_base36 c = (c \<in> set ''0123456789abcdefghijklmnopqrstuvwxyz'')"

definition is_upper_alnum :: "char \<Rightarrow> bool" where
  "is_upper_alnum c = (c \<in> set ''0123456789ABCDEFGHIJKLMNOPQRSTUVWXYZ'')"

text \<open>A search query without the characters that \<^verbatim>\<open>LIKE\<close> reads as wild cards or escapes.\<close>

definition plain :: "string \<Rightarrow> bool" where
  "plain q = list_all (\<lambda>c. c \<noteq> CHR ''%'' \<and> c \<noteq> CHR ''_'' \<and> c \<noteq> CHR 0x5C) q"

section \<open>Properties\<close>

subsection \<open>Lists with a key\<close>


subsection \<open>The statements of the client-details handler\<close>







lemma example_token_ab:
  "example_token 0xab = ''abababababababababababababababababababababababababababababababab''"
  by code_simp

subsection \<open>When verification of a client link succeeds\<close>




subsection \<open>One answer for every link that fails verification\<close>



subsection \<open>Issuing a client link\<close>

lemma length_toString_hex: "length (toString_hex bs) = 2 * length bs"
  by (induction bs) (simp_all add: toString_hex_def byte_hex_def)

lemma length_token: "length (toString_hex (randomBytes e 32)) = 64"
  by (simp add: length_toString_hex randomBytes_def)

lemma post_admin_client_links_eq:
  "post_admin_client_links e clientId d =
     (if toString_hex (randomBytes e 32) \<notin> set (map cl_token (client_links d)) \<and>
         (case clientId of None \<Rightarrow> True | Some i \<Rightarrow> i \<in> set (map c_id (clients d)))
      then (Response 201
              (Link_issued
                 (''https://www.zorvixetechnologies.com/payment/'' @ toString_hex (randomBytes e 32))
                 (toString_hex (randomBytes e 32)) (date_now e + 24 * 60 * 60 * 1000)),
            d\<lparr>client_links := client_links d @ [link_row e clientId d],
              client_links_id_seq := client_links_id_seq d + 1\<rparr>)
      else (Response 500 (Failure ''Failed to generate link''), d))"
  by (simp add: post_admin_client_links_def insert_client_link_def bind_err_def varchar_def
      length_token link_row_def msPerDay_def Let_def split: option.split)




subsection \<open>Two links for one client\<close>




subsection \<open>The application keeps the constraints of the schema\<close>

lemma schema_constraints_initializeDb_rev2: "schema_constraints (initializeDb_rev2 now None)"
  by (simp add: schema_constraints_def initializeDb_rev2_def seed_payment_link_def no_tables_def)

lemma schema_constraints_initializeDb_rev1: "schema_constraints (initializeDb_rev1 now None)"
  by (simp add: schema_constraints_def initializeDb_rev1_def seed_payment_link_def no_tables_def)

lemma schema_constraints_post_admin_client_links:
  "schema_constraints d \<Longrightarrow> schema_constraints (snd (post_admin_client_links e clientId d))"
  by (auto simp: post_admin_client_links_eq schema_constraints_def link_row_def list_all_iff
      split: option.splits)

lemma insert_client_Inr:
  "insert_client now f d = Inr (row, d') \<Longrightarrow>
   c_id row = clients_id_seq d + 1 \<and>
   d' = d\<lparr>clients := clients d @ [row], clients_id_seq := clients_id_seq d + 1\<rparr>"
  by (auto simp: insert_client_def bind_err_def Let_def split: sum.splits)

lemma schema_constraints_post_admin_clients:
  assumes "schema_constraints d"
  shows "schema_constraints (snd (post_admin_clients e f d))"
proof (cases "insert_client (sql_now e) f d")
  case (Inl err)
  with assms show ?thesis by (simp add: post_admin_clients_def)
next
  case (Inr r)
  obtain row d' where r: "r = (row, d')" by (cases r)
  from insert_client_Inr [OF Inr [unfolded r]]
  have row: "c_id row = clients_id_seq d + 1"
    and d': "d' = d\<lparr>clients := clients d @ [row], clients_id_seq := clients_id_seq d + 1\<rparr>"
    by simp_all
  from assms have "c_id row \<notin> set (map c_id (clients d))"
    by (auto simp: schema_constraints_def list_all_iff row)
  with assms have "schema_constraints d'"
    by (auto simp: schema_constraints_def list_all_iff d' row split: option.splits)
  with Inr r show ?thesis by (simp add: post_admin_clients_def)
qed

subsection \<open>The legacy link check\<close>







subsection \<open>Switching the legacy link\<close>

text \<open>
  On a table that has the column \<^verbatim>\<open>active\<close>, \<^verbatim>\<open>PUT /api/admin/payment-link/:token\<close> does
  what is expected of it: 404 and no change for a token that no row has; for a row that
  has it, 200 with the row as updated, and the same request again gives the same response
  and the same database.
\<close>

lemma set_active_twice: "set_active s token (set_active s token r) = set_active s token r"
  by (simp add: set_active_def)

lemma set_active_token: "pl_token (set_active s token r) = pl_token r"
  by (simp add: set_active_def)

lemma set_active_active: "pl_token r = token \<Longrightarrow> pl_active (set_active s token r) = s"
  by (simp add: set_active_def)

lemma set_active_absent:
  "token \<notin> set (map pl_token rows) \<Longrightarrow> map (set_active s token) rows = rows"
  by (induction rows) (auto simp: set_active_def)

lemma update_payment_links_eq:
  "payment_links_has_active d \<Longrightarrow>
   update_payment_links s token d =
     Inr (filter (\<lambda>r. pl_token r = token) (map (set_active s token) (payment_links d)),
          d\<lparr>payment_links := map (set_active s token) (payment_links d)\<rparr>)"
  by (simp add: update_payment_links_def Let_def)

lemma filter_set_active:
  "filter (\<lambda>r. pl_token r = token) (map (set_active s token) rows) =
   map (set_active s token) (filter (\<lambda>r. pl_token r = token) rows)"
  by (induction rows) (simp_all add: set_active_token)


lemma put_admin_payment_link_eq:
  "payment_links_has_active d \<Longrightarrow>
   put_admin_payment_link token s d =
     (case map (set_active s token) (filter (\<lambda>r. pl_token r = token) (payment_links d)) of
        [] \<Rightarrow> (Response 404 (Failure ''Payment link not found''),
               d\<lparr>payment_links := map (set_active s token) (payment_links d)\<rparr>)
      | r # _ \<Rightarrow>
          (Response 200
             (Payment_link_updated
                (''Link '' @ (if s = Some True then ''activated'' else ''deactivated'')) r),
           d\<lparr>payment_links := map (set_active s token) (payment_links d)\<rparr>))"
  by (simp add: put_admin_payment_link_def update_payment_links_eq filter_set_active)

lemma put_admin_payment_link_absent:
  assumes "payment_links_has_active d" and "token \<notin> set (map pl_token (payment_links d))"
  shows "put_admin_payment_link token s d = (Response 404 (Failure ''Payment link not found''), d)"
proof -
  from assms(2) have "filter (\<lambda>r. pl_token r = token) (payment_links d) = []"
    by (auto simp: filter_empty_conv)
  with assms show ?thesis
    by (simp add: put_admin_payment_link_eq set_active_absent)
qed

lemma put_admin_payment_link_present:
  assumes col: "payment_links_has_active d"
    and sel: "filter (\<lambda>r. pl_token r = token) (payment_links d) = r # rs"
  shows "put_admin_payment_link token s d =
           (Response 200
              (Payment_link_updated
                 (''Link '' @ (if s = Some True then ''activated'' else ''deactivated''))
                 (r\<lparr>pl_active := s\<rparr>)),
            d\<lparr>payment_links := map (set_active s token) (payment_links d)\<rparr>)"
proof -
  from sel have "r \<in> set (filter (\<lambda>r. pl_token r = token) (payment_links d))" by simp
  then have "pl_token r = token" by simp
  then have "set_active s token r = r\<lparr>pl_active := s\<rparr>" by (simp add: set_active_def)
  with col sel show ?thesis by (simp add: put_admin_payment_link_eq)
qed

lemma map_set_active_twice:
  "map (set_active s token) (map (set_active s token) rows) = map (set_active s token) rows"
  by (induction rows) (simp_all add: set_active_twice)

lemma put_admin_payment_link_again:
  assumes col: "payment_links_has_active d"
  shows "put_admin_payment_link token s (snd (put_admin_payment_link token s d)) =
         put_admin_payment_link token s d"
proof -
  let ?d' = "d\<lparr>payment_links := map (set_active s token) (payment_links d)\<rparr>"
  have d': "snd (put_admin_payment_link token s d) = ?d'"
    using col by (simp add: put_admin_payment_link_eq split: list.split)
  have col': "payment_links_has_active ?d'" using col by simp
  have sel: "filter (\<lambda>r. pl_token r = token) (payment_links ?d') =
      map (set_active s token) (filter (\<lambda>r. pl_token r = token) (payment_links d))"
    by (simp add: filter_set_active)
  have "put_admin_payment_link token s ?d' = put_admin_payment_link token s d"
    unfolding put_admin_payment_link_eq [OF col'] put_admin_payment_link_eq [OF col] sel
    by (simp add: map_set_active_twice del: map_map split: list.split)
  then show ?thesis by (simp only: d')
qed


text \<open>
  Claim C5. Setting the same state twice succeeds both times and returns the row, and a
  token that no row has gets 404 without any change. The handler does so where the table
  has the column \<^verbatim>\<open>active\<close> (the three lemmas above). It does not on the table revision 2
  creates (lines 538 to 544, no column \<^verbatim>\<open>active\<close>): the \<^verbatim>\<open>UPDATE\<close> is rejected and the
  handler of revision 2 answers 500, for the row that is there and for a token that is not.
\<close>

theorem set_link_active_fails_on_rev2_schema:
  "payment_links (initializeDb_rev2 0 None) =
     [\<lparr>pl_id = 1, pl_token = fixed_token, pl_active = None, pl_created_at = 0\<rparr>] \<and>
   payment_links_has_active (initializeDb_rev2 0 None) = False \<and>
   put_admin_payment_link fixed_token (Some False) (initializeDb_rev2 0 None) =
     (Response 500 (Failure ''Failed to update link status''), initializeDb_rev2 0 None) \<and>
   put_admin_payment_link ''no-such-token'' (Some False) (initializeDb_rev2 0 None) =
     (Response 500 (Failure ''Failed to update link status''), initializeDb_rev2 0 None)"
  by code_simp


subsection \<open>The search route\<close>

lemma resolve_search_rev1:
  "resolve routes_rev1 GET [''api'', ''admin'', ''payments'', ''search''] =
     Some (H_admin_payments_id, [(''id'', ''search'')])"
  by (simp add: routes_rev1_def)

lemma resolve_search_rev2:
  "resolve routes_rev2 GET [''api'', ''admin'', ''payments'', ''search''] =
     Some (H_admin_payments_id, [(''id'', ''search'')])"
  by (simp add: routes_rev2_def)

lemma int4in_search: "int4in ''search'' = Inl Invalid_text_representation"
  by code_simp

lemma get_admin_payments_id_search:
  "get_admin_payments_id ''search'' d =
     (Response 500 (Failure ''Failed to fetch payment registration''), d)"
  by (simp add: get_admin_payments_id_def select_payment_registration_def bind_err_def
      int4in_search)

text \<open>
  Claim C9. A search request whose query is absent or shorter than 3 characters gets 400
  and no query is run, and a longer one gets 200 with at most 20 rows. The handler written
  for the route does that (with the length taken after trimming), but no request reaches
  it: \<^verbatim>\<open>/api/admin/payments/:id\<close> is registered before \<^verbatim>\<open>/api/admin/payments/search\<close> (lines
  341 and 414, 814 and 887), so every search request runs the handler of the former with
  \<^verbatim>\<open>id = 'search'\<close>, whose query PostgreSQL rejects, and the response is 500 whatever the
  query parameter is.
\<close>

theorem search_route_is_shadowed:
  "get_request Rev1 e [''api'', ''admin'', ''payments'', ''search''] query d =
     Sent (Response 500 (Failure ''Failed to fetch payment registration'')) d \<and>
   get_request Rev2 e [''api'', ''admin'', ''payments'', ''search''] query d =
     Sent (Response 500 (Failure ''Failed to fetch payment registration'')) d"
  by (simp add: get_request_def routes_def resolve_search_rev1 resolve_search_rev2 param_def
      get_admin_payments_id_search sent_def)


subsection \<open>The patterns of the contact form\<close>

lemma regex_test_Nil: "regex_test r [] = nullable r"
  by (simp add: regex_test_def)

lemma regex_test_Cons: "regex_test r (c # cs) = regex_test (deriv c r) cs"
  by (simp add: regex_test_def)

lemma regex_test_Never: "\<not> regex_test Never s"
  by (induction s) (simp_all add: regex_test_Nil regex_test_Cons)

lemma regex_test_Eps: "regex_test Eps s = (s = [])"
  by (cases s) (simp_all add: regex_test_Nil regex_test_Cons regex_test_Never)

lemma regex_test_Alt: "regex_test (Alt a b) s = (regex_test a s \<or> regex_test b s)"
  by (induction s arbitrary: a b) (simp_all add: regex_test_Nil regex_test_Cons)

lemma regex_test_Seq_Never: "\<not> regex_test (Seq Never r) s"
  by (induction s) (simp_all add: regex_test_Nil regex_test_Cons)

lemma regex_test_Seq_Eps: "regex_test (Seq Eps r) s = regex_test r s"
  by (cases s)
    (simp_all add: regex_test_Nil regex_test_Cons regex_test_Alt regex_test_Seq_Never)

lemma regex_test_Seq_Class:
  "regex_test (Seq (Class p) r) s = (case s of [] \<Rightarrow> False | c # cs \<Rightarrow> p c \<and> regex_test r cs)"
  by (cases s)
    (simp_all add: regex_test_Nil regex_test_Cons regex_test_Seq_Eps regex_test_Seq_Never)

lemma regex_test_times_Class:
  "regex_test (times n (Class p)) s = (length s = n \<and> list_all p s)"
proof (induction n arbitrary: s)
  case 0
  then show ?case by (auto simp: regex_test_Eps)
next
  case (Suc n)
  then show ?case by (cases s) (auto simp: regex_test_Seq_Class)
qed

lemma regex_test_phone:
  "regex_test phone_regex s =
     (case s of [] \<Rightarrow> False
      | c # cs \<Rightarrow> c \<in> set ''6789'' \<and> length cs = 9 \<and> list_all is_digit cs)"
  unfolding phone_regex_def regex_test_Seq_Class regex_test_times_Class ..

lemma regex_test_phone_length: "regex_test phone_regex s \<Longrightarrow> length s = 10"
  by (cases s) (simp_all add: regex_test_phone)


subsection \<open>Submitting the contact form\<close>

lemma trim_Nil: "trim [] = []"
  by (simp add: trim_def)

















subsection \<open>The reference id of a payment registration\<close>

text \<open>
  When the year has four digits and \<^verbatim>\<open>Math.random().toString(36)\<close> has at least six digits
  after the point, the reference id has the format \<^verbatim>\<open>PAY-YYYY-RANDOM6\<close>.
\<close>

lemma upper_of_base36: "is_base36 c \<Longrightarrow> is_upper_alnum (upper_of c)"
  by (auto simp: is_base36_def is_upper_alnum_def upper_of_def)

lemma digit_char: "n < 10 \<Longrightarrow> is_digit (''0123456789'' ! n)"
proof -
  assume "n < 10"
  then have "n \<in> {0, 1, 2, 3, 4, 5, 6, 7, 8, 9}" by auto
  then show ?thesis by (auto simp: is_digit_def)
qed

lemma decimal_four_digits:
  assumes "1000 \<le> n" and "n \<le> 9999"
  shows "length (decimal n) = 4 \<and> list_all is_digit (decimal n)"
proof -
  let ?d = "\<lambda>k. ''0123456789'' ! k"
  have a: "\<not> n < 10" "\<not> n div 10 < 10" "\<not> n div 10 div 10 < 10" "n div 10 div 10 div 10 < 10"
    using assms by simp_all
  have "decimal n =
      [?d (n div 10 div 10 div 10), ?d (n div 10 div 10 mod 10), ?d (n div 10 mod 10),
       ?d (n mod 10)]"
    by (subst decimal.simps, simp only: a if_False,
        subst decimal.simps, simp only: a if_False,
        subst decimal.simps, simp only: a if_False,
        subst decimal.simps, simp only: a if_True) simp
  moreover have "is_digit (?d (n div 10 div 10 div 10))" using a(4) by (rule digit_char)
  moreover have "is_digit (?d (n div 10 div 10 mod 10))" by (rule digit_char) simp
  moreover have "is_digit (?d (n div 10 mod 10))" by (rule digit_char) simp
  moreover have "is_digit (?d (n mod 10))" by (rule digit_char) simp
  ultimately show ?thesis by simp
qed

lemma reference_id_format:
  assumes year: "1000 \<le> full_year e" "full_year e \<le> 9999"
    and long: "8 \<le> length (math_random_36 e)"
    and digits: "list_all is_base36 (substr 2 6 (math_random_36 e))"
  shows "\<exists>y s. referenceId e = ''PAY-'' @ y @ ''-'' @ s \<and>
           length y = 4 \<and> list_all is_digit y \<and> length s = 6 \<and> list_all is_upper_alnum s"
proof -
  have len: "length (randomString e) = 6"
    using long by (simp add: randomString_def toUpperCase_def substr_def)
  have "\<And>c. c \<in> set (substr 2 6 (math_random_36 e)) \<Longrightarrow> is_base36 c"
    using digits by (simp add: list_all_iff)
  then have up: "list_all is_upper_alnum (randomString e)"
    by (simp add: randomString_def toUpperCase_def list_all_iff upper_of_base36)
  have "referenceId e = ''PAY-'' @ decimal (full_year e) @ ''-'' @ randomString e"
    by (simp add: referenceId_def)
  with len up decimal_four_digits [OF year] show ?thesis by blast
qed

text \<open>
  Claim C7. The reference id is \<^verbatim>\<open>PAY-\<close>, a year of 4 digits, a hyphen and exactly 6 upper
  case letters or digits. The handler cuts the 6 characters out of
  \<^verbatim>\<open>Math.random().toString(36)\<close> without looking at its length: when the number drawn is
  0.5 the string is \<^verbatim>\<open>0.i\<close> and the reference id is \<^verbatim>\<open>PAY-2026-I\<close>, and when it is 0 the
  string is \<^verbatim>\<open>0\<close> and the part after the second hyphen is empty. The handler stores that
  id and answers 201.
\<close>

theorem reference_id_short_suffix:
  "referenceId ((example_env 0 0)\<lparr>math_random_36 := ''0.i''\<rparr>) = ''PAY-2026-I'' \<and>
   referenceId ((example_env 0 0)\<lparr>math_random_36 := ''0''\<rparr>) = ''PAY-2026-'' \<and>
   fst (post_payment_submit ((example_env 0 0)\<lparr>math_random_36 := ''0.i''\<rparr>) example_payment
          (initializeDb_rev2 0 None)) =
     Response 201
       (Payment_created ''PAY-2026-I''
          \<lparr>pr_id = 1, pr_client_name = ''Asha Rao'', pr_project_name = ''Website'',
           pr_client_id = ''1'', pr_amount = 1250000, pr_due_date = 700000,
           pr_receipt_url = ''https://example.com/receipt.pdf'', pr_reference_id = ''PAY-2026-I'',
           pr_status = Some ''pending'', pr_created_at = 0\<rparr>)"
  by code_simp

lemma reference_id_example:
  "referenceId (example_env 0 0) = ''PAY-2026-4FZYO8''"
  by code_simp

subsection \<open>The search handler on its own\<close>

text \<open>
  What the handler written for \<^verbatim>\<open>GET /api/admin/payments/search\<close> does when it is called:
  400 without touching the database for a query that is absent or, after trimming, shorter
  than 3 characters; otherwise 200 with at most 20 rows of the table, each of which matches
  the pattern in one of the four columns. For a query without wild cards a column matches
  when it contains the query, case aside.
\<close>

lemma search_handler_short_query:
  "(case query of None \<Rightarrow> True | Some q \<Rightarrow> length (trim q) < 3) \<Longrightarrow>
   get_admin_payments_search query d =
     (Response 400 (Failure ''Search query must be at least 3 characters''), d)"
  by (auto simp: get_admin_payments_search_def split: option.splits)

lemma search_handler_long_query:
  assumes "3 \<le> length (trim q)"
  shows "\<exists>rows. get_admin_payments_search (Some q) d = (Response 200 (Payments rows), d) \<and>
           length rows \<le> 20 \<and>
           (\<forall>p \<in> set rows. p \<in> set (payment_registrations d) \<and>
              (ilike (pr_client_name p) (''%'' @ q @ ''%'') \<or>
               ilike (pr_project_name p) (''%'' @ q @ ''%'') \<or>
               ilike (pr_client_id p) (''%'' @ q @ ''%'') \<or>
               ilike (pr_reference_id p) (''%'' @ q @ ''%'')))"
proof -
  from assms have "q \<noteq> []" by (auto simp: trim_Nil)
  with assms have "get_admin_payments_search (Some q) d =
      (Response 200 (Payments (select_search (''%'' @ q @ ''%'') d)), d)"
    by (simp add: get_admin_payments_search_def)
  moreover have "length (select_search (''%'' @ q @ ''%'') d) \<le> 20"
    by (simp add: select_search_def)
  moreover have "p \<in> set (payment_registrations d) \<and>
              (ilike (pr_client_name p) (''%'' @ q @ ''%'') \<or>
               ilike (pr_project_name p) (''%'' @ q @ ''%'') \<or>
               ilike (pr_client_id p) (''%'' @ q @ ''%'') \<or>
               ilike (pr_reference_id p) (''%'' @ q @ ''%''))"
    if "p \<in> set (select_search (''%'' @ q @ ''%'') d)" for p
  proof -
    from that have "p \<in> set (sort_key (\<lambda>p. - pr_created_at p)
          (filter (\<lambda>p. ilike (pr_client_name p) (''%'' @ q @ ''%'') \<or>
                       ilike (pr_project_name p) (''%'' @ q @ ''%'') \<or>
                       ilike (pr_client_id p) (''%'' @ q @ ''%'') \<or>
                       ilike (pr_reference_id p) (''%'' @ q @ ''%''))
             (payment_registrations d)))"
      unfolding select_search_def by (rule in_set_takeD)
    then show ?thesis by simp
  qed
  ultimately show ?thesis by blast
qed

lemma like_percent: "like (CHR ''%'' # p) s = (\<exists>a b. s = a @ b \<and> like p b)"
proof (induction s)
  case Nil
  then show ?case by simp
next
  case (Cons c cs)
  show ?case
  proof
    assume "like (CHR ''%'' # p) (c # cs)"
    then consider "like p (c # cs)" | "like (CHR ''%'' # p) cs" by auto
    then show "\<exists>a b. c # cs = a @ b \<and> like p b"
    proof cases
      case 1
      then have "c # cs = [] @ (c # cs) \<and> like p (c # cs)" by simp
      then show ?thesis by blast
    next
      case 2
      with Cons.IH obtain a b where "cs = a @ b" "like p b" by blast
      then have "c # cs = (c # a) @ b \<and> like p b" by simp
      then show ?thesis by blast
    qed
  next
    assume "\<exists>a b. c # cs = a @ b \<and> like p b"
    then obtain a b where ab: "c # cs = a @ b" "like p b" by blast
    show "like (CHR ''%'' # p) (c # cs)"
    proof (cases a)
      case Nil
      with ab have "like p (c # cs)" by simp
      then show ?thesis by simp
    next
      case (Cons x xs)
      with ab have "cs = xs @ b" by simp
      with ab(2) Cons.IH have "like (CHR ''%'' # p) cs" by blast
      then show ?thesis by simp
    qed
  qed
qed

lemma like_plain: "plain q \<Longrightarrow> like (q @ p) s = (\<exists>t. s = q @ t \<and> like p t)"
proof (induction q arbitrary: s)
  case Nil
  then show ?case by simp
next
  case (Cons c q)
  then have c: "c \<noteq> CHR ''%''" "c \<noteq> CHR ''_''" "c \<noteq> CHR 0x5C" and q: "plain q"
    by (simp_all add: plain_def)
  show ?case
  proof (cases s)
    case Nil
    with c show ?thesis by simp
  next
    case (Cons x xs)
    with c Cons.IH [OF q, of xs] show ?thesis by auto
  qed
qed

lemma like_contains:
  "plain q \<Longrightarrow> like (''%'' @ q @ ''%'') s = (\<exists>a t. s = a @ q @ t)"
proof -
  assume q: "plain q"
  have all: "like ''%'' t" for t by (simp add: like_percent)
  have "like (''%'' @ q @ ''%'') s = (\<exists>a b. s = a @ b \<and> like (q @ ''%'') b)"
    by (simp add: like_percent)
  also have "\<dots> = (\<exists>a b. s = a @ b \<and> (\<exists>t. b = q @ t))"
    using all by (simp add: like_plain [OF q])
  also have "\<dots> = (\<exists>a t. s = a @ q @ t)" by blast
  finally show ?thesis .
qed

lemma lower_of_cases: "lower_of c = c \<or> lower_of c \<in> set ''abcdefghijklmnopqrstuvwxyz''"
  unfolding lower_of_def by (simp split: option.split)

lemma lower_of_plain:
  assumes "c \<noteq> CHR ''%''" "c \<noteq> CHR ''_''" "c \<noteq> CHR 0x5C"
  shows "lower_of c \<noteq> CHR ''%'' \<and> lower_of c \<noteq> CHR ''_'' \<and> lower_of c \<noteq> CHR 0x5C"
proof (cases "lower_of c = c")
  case True
  with assms show ?thesis by simp
next
  case False
  with lower_of_cases [of c] have "lower_of c \<in> set ''abcdefghijklmnopqrstuvwxyz''" by blast
  moreover have "CHR ''%'' \<notin> set ''abcdefghijklmnopqrstuvwxyz''"
    "CHR ''_'' \<notin> set ''abcdefghijklmnopqrstuvwxyz''"
    "CHR 0x5C \<notin> set ''abcdefghijklmnopqrstuvwxyz''"
    by simp_all
  ultimately show ?thesis by metis
qed


lemma ilike_contains:
  assumes "plain q"
  shows "ilike s (''%'' @ q @ ''%'') = (\<exists>a t. map lower_of s = a @ map lower_of q @ t)"
proof -
  have pct: "lower_of CHR ''%'' = CHR ''%''" by (simp add: lower_of_def)
  have "\<And>c. c \<in> set q \<Longrightarrow> c \<noteq> CHR ''%'' \<and> c \<noteq> CHR ''_'' \<and> c \<noteq> CHR 0x5C"
    using assms by (simp add: plain_def list_all_iff)
  then have "\<And>c. c \<in> set q \<Longrightarrow>
      lower_of c \<noteq> CHR ''%'' \<and> lower_of c \<noteq> CHR ''_'' \<and> lower_of c \<noteq> CHR 0x5C"
    by (intro lower_of_plain) blast+
  then have "plain (map lower_of q)"
    by (simp add: plain_def list_all_iff)
  from like_contains [OF this, of "map lower_of s"] show ?thesis
    by (simp add: ilike_def pct)
qed

subsection \<open>The other handlers leave clients and links alone\<close>

lemma schema_constraints_cong:
  "clients d' = clients d \<Longrightarrow> clients_id_seq d' = clients_id_seq d \<Longrightarrow>
   client_links d' = client_links d \<Longrightarrow> schema_constraints d' = schema_constraints d"
  by (simp add: schema_constraints_def cong: option.case_cong)

lemma insert_contact_Inr:
  "insert_contact now n em ph su m d = Inr (row, d') \<Longrightarrow>
   d' = d\<lparr>contacts := contacts d @ [row], contacts_id_seq := contacts_id_seq d + 1\<rparr>"
  by (auto simp: insert_contact_def bind_err_def Let_def split: sum.splits)

lemma insert_payment_registration_Inr:
  "insert_payment_registration now f reference d = Inr (row, d') \<Longrightarrow>
   d' = d\<lparr>payment_registrations := payment_registrations d @ [row],
          payment_registrations_id_seq := payment_registrations_id_seq d + 1\<rparr>"
  by (auto simp: insert_payment_registration_def bind_err_def Let_def split: sum.splits if_splits)

lemma schema_constraints_post_contact_submit:
  "schema_constraints (snd (post_contact_submit e f d)) = schema_constraints d"
proof (cases "insert_contact (sql_now e) (cf_name f) (cf_email f) (cf_phone f) (cf_subject f)
    (cf_message f) d")
  case (Inl err)
  then show ?thesis by (simp add: post_contact_submit_def Let_def)
next
  case (Inr r)
  obtain row d' where r: "r = (row, d')" by (cases r)
  from insert_contact_Inr [OF Inr [unfolded r]] have "schema_constraints d' = schema_constraints d"
    by (intro schema_constraints_cong) simp_all
  with Inr r show ?thesis by (simp add: post_contact_submit_def Let_def)
qed

lemma schema_constraints_post_payment_submit:
  "schema_constraints (snd (post_payment_submit e f d)) = schema_constraints d"
proof (cases "insert_payment_registration (sql_now e) f (referenceId e) d")
  case (Inl err)
  then show ?thesis by (simp add: post_payment_submit_def)
next
  case (Inr r)
  obtain row d' where r: "r = (row, d')" by (cases r)
  from insert_payment_registration_Inr [OF Inr [unfolded r]]
  have "schema_constraints d' = schema_constraints d"
    by (intro schema_constraints_cong) simp_all
  with Inr r show ?thesis by (simp add: post_payment_submit_def)
qed

lemma schema_constraints_put_admin_payment_link:
  "schema_constraints (snd (put_admin_payment_link token s d)) = schema_constraints d"
proof (cases "payment_links_has_active d")
  case True
  then show ?thesis
    by (simp add: put_admin_payment_link_eq schema_constraints_def split: list.split
        cong: option.case_cong)
next
  case False
  then show ?thesis
    by (simp add: put_admin_payment_link_def update_payment_links_def)
qed

subsection \<open>Every state the application reaches satisfies the constraints\<close>

lemma seed_payment_link_frame:
  "seed_payment_link names now d = Inr d' \<Longrightarrow>
   clients d' = clients d \<and> clients_id_seq d' = clients_id_seq d \<and>
   client_links d' = client_links d"
  by (auto simp: seed_payment_link_def split: if_splits)

lemma schema_constraints_restart_rev1:
  "schema_constraints (initializeDb_rev1 now (Some d)) = schema_constraints d"
proof (cases "seed_payment_link True now d")
  case (Inl err)
  then show ?thesis by (simp add: initializeDb_rev1_def)
next
  case (Inr d')
  from seed_payment_link_frame [OF Inr] have "schema_constraints d' = schema_constraints d"
    by (intro schema_constraints_cong) simp_all
  with Inr show ?thesis by (simp add: initializeDb_rev1_def)
qed

lemma schema_constraints_restart_rev2:
  "schema_constraints (initializeDb_rev2 now (Some d)) = schema_constraints d"
proof (cases "seed_payment_link False now d")
  case (Inl err)
  then show ?thesis by (simp add: initializeDb_rev2_def)
next
  case (Inr d')
  from seed_payment_link_frame [OF Inr] have "schema_constraints d' = schema_constraints d"
    by (intro schema_constraints_cong) simp_all
  with Inr show ?thesis by (simp add: initializeDb_rev2_def)
qed

lemma reachable_schema_constraints: "reachable d \<Longrightarrow> schema_constraints d"
proof (induction rule: reachable.induct)
  case (start_rev1 now)
  show ?case by (rule schema_constraints_initializeDb_rev1)
next
  case (start_rev2 now)
  show ?case by (rule schema_constraints_initializeDb_rev2)
next
  case (restart_rev1 d now)
  then show ?case by (simp add: schema_constraints_restart_rev1)
next
  case (restart_rev2 d now)
  then show ?case by (simp add: schema_constraints_restart_rev2)
next
  case (put_link d token active)
  then show ?case by (simp add: schema_constraints_put_admin_payment_link)
next
  case (contact d e cf)
  then show ?case by (simp add: schema_constraints_post_contact_submit)
next
  case (payment d e pf)
  then show ?case by (simp add: schema_constraints_post_payment_submit)
next
  case (new_client d e nf)
  from new_client.IH show ?case by (rule schema_constraints_post_admin_clients)
next
  case (new_link d e clientId)
  from new_link.IH show ?case by (rule schema_constraints_post_admin_client_links)
qed

lemma reachable_db_orphan_link: "reachable db_orphan_link"
  unfolding db_orphan_link_def by (intro reachable.new_link reachable.start_rev2)

lemma reachable_db_two_links: "reachable db_two_links"
  unfolding db_two_links_def db_one_link_def db_one_client_def
  by (intro reachable.new_link reachable.new_client reachable.start_rev2)

lemma reachable_db_legacy_off: "reachable db_legacy_off"
  unfolding db_legacy_off_def
  by (intro reachable.restart_rev2 reachable.put_link reachable.start_rev1)

subsection \<open>Verification of a client link reads only\<close>

text \<open>
  Claim C10. For every token and every database state, \<^verbatim>\<open>GET /api/client-details/:token\<close>
  leaves the database as it found it, whichever response it sends, so that asking again
  with the same token at the same time gives the same response.
\<close>

theorem client_details_read_only:
  "snd (get_client_details e token d) = d \<and>
   get_client_details e token (snd (get_client_details e token d)) =
     get_client_details e token d"
  by (simp add: get_client_details_def Let_def split: list.split)

end
